theory Spec2Isabelle
  imports Complex_Main
begin

section \<open>Numbers\<close>

text \<open>
  Every JavaScript number of the game (angles, intensities, coordinates, speeds) is
  modelled as a \<^typ>\<open>real\<close>: rounding, NaN and the signed zeros of IEEE doubles are
  outside the model. Counters that only ever hold non-negative integers (the score, the
  high score, the frame counter) are \<^typ>\<open>nat\<close>.

  This matters most for the position of an obstacle: \<open>obs.x -= gameSpeed.current\<close>
  rounds on every frame, the subtraction here does not, so after many frames the
  position in the source and the position here can differ in the last bits, and with
  them the frame on which \<open>obs.x + obs.w < 0\<close> first holds. Where a frame count
  appears below, it is the count of exact arithmetic.
\<close>

section \<open>types.ts\<close>

datatype GameMode = SQUAT | ARM_RAISE | LUNGE

datatype GameState = MENU | TUTORIAL | PLAYING | GAME_OVER

datatype Difficulty = EASY | MEDIUM | HARD

text \<open>
  \<open>interface Point { x; y; visibility? }\<close>. The fields are prefixed because a record
  field is a constant of the theory.
\<close>

record Point =
  pt_x :: real
  pt_y :: real
  visibility :: "real option"

section \<open>utils/math\<close>

text \<open>
  \<open>Math.atan2(y, x)\<close> of the platform, on reals: the angle of the point \<open>(x, y)\<close> in
  \<open>(-\<pi>, \<pi>]\<close>, with \<open>atan2(0, 0) = 0\<close>.
\<close>

definition atan2 :: "real \<Rightarrow> real \<Rightarrow> real" where
  "atan2 b a =
     (if 0 < a then arctan (b / a)
      else if a < 0 then (if 0 \<le> b then arctan (b / a) + pi else arctan (b / a) - pi)
      else if 0 < b then pi / 2
      else if b < 0 then - (pi / 2)
      else 0)"

definition calculateAngle :: "Point \<Rightarrow> Point \<Rightarrow> Point \<Rightarrow> real" where
  "calculateAngle a b c =
     (let radians = atan2 (pt_y c - pt_y b) (pt_x c - pt_x b)
                    - atan2 (pt_y a - pt_y b) (pt_x a - pt_x b);
          angle = \<bar>radians * 180.0 / pi\<bar>
      in if angle > 180.0 then 360 - angle else angle)"

text \<open>
  \<open>normalize(value, min, max, inverse)\<close>. The parameters \<open>min\<close> and \<open>max\<close> are
  named \<open>minv\<close> and \<open>maxv\<close> here, \<open>inverse\<close> is \<open>inverse'\<close>. For \<open>min = max\<close> the source divides by zero
  (NaN or an infinity); the model is meant for \<open>min \<noteq> max\<close> only, which is how
  every call site uses it.
\<close>

definition normalize :: "real \<Rightarrow> real \<Rightarrow> real \<Rightarrow> bool \<Rightarrow> real" where
  "normalize val minv maxv inverse' =
     (let normalized = (val - minv) / (maxv - minv);
          normalized = max 0 (min 1 normalized)
      in if inverse' then 1 - normalized else normalized)"

section \<open>GameCanvas: data\<close>

datatype SparkleType = circle | star

record Sparkle =
  sp_x :: real
  sp_y :: real
  sp_vx :: real
  sp_vy :: real
  sp_size :: real
  sp_color :: string
  sp_alpha :: real
  sp_decay :: real
  sp_type :: SparkleType

datatype ObstacleType = block | floating

record Obstacle =
  obs_x :: real
  obs_y :: real
  obs_w :: real
  obs_h :: real
  obs_type :: ObstacleType
  obs_color :: string

definition CANVAS_WIDTH :: real where
  "CANVAS_WIDTH = 1280"

definition CANVAS_HEIGHT :: real where
  "CANVAS_HEIGHT = 720"

text \<open>The four cues \<open>playSound\<close> is asked for; the synthesis itself is not modelled.\<close>

datatype Sound = score_cue | gameover_cue | start_cue | jump_cue

text \<open>The texts \<open>setFeedback\<close> shows.\<close>

datatype Feedback =
    LoadingVisionModels | InitializingAI | StandBack | ReadyStartMoving
  | CameraUnavailable | ExcellentForm | KeepGoing | MoveToFly

text \<open>
  The component's state: the React state variables and the refs. \<open>mode\<close> is a prop and
  is passed to the functions that read it.
\<close>

record Game =
  gameState :: GameState
  difficulty :: Difficulty
  score :: nat
  highScore :: nat
  feedback :: Feedback
  playerY :: real
  playerVelocity :: real
  intensityRef :: real
  wasJumpingRef :: bool
  obstacles :: "Obstacle list"
  gameSpeed :: real
  frameRef :: nat
  sparklesRef :: "Sparkle list"

section \<open>GameCanvas: pose analysis (\<open>onPoseResults\<close>)\<close>

text \<open>
  \<open>results.poseLandmarks\<close> is \<open>null\<close> or the landmark array of the pose source, which
  always holds all 33 landmarks: a total function from the index.

  The handler reads \<open>isSimulation\<close>, \<open>simIntensity\<close>, \<open>mode\<close> and \<open>gameState\<close> from
  the closure it was created in; they are parameters here.
\<close>

type_synonym PoseResults = "(nat \<Rightarrow> Point) option"

definition currentIntensity :: "bool \<Rightarrow> real \<Rightarrow> GameMode \<Rightarrow> PoseResults \<Rightarrow> real" where
  "currentIntensity isSimulation simIntensity mode results =
     (if isSimulation then simIntensity
      else case results of
        None \<Rightarrow> 0
      | Some landmarks \<Rightarrow>
          (case mode of
             SQUAT \<Rightarrow>
               (let angle = calculateAngle (landmarks 23) (landmarks 25) (landmarks 27)
                in normalize angle 160 70 True)
           | ARM_RAISE \<Rightarrow>
               (let nose = landmarks 0;
                    leftWrist = landmarks 15;
                    rightWrist = landmarks 16;
                    leftHigh = pt_y leftWrist < pt_y nose;
                    rightHigh = pt_y rightWrist < pt_y nose
                in if leftHigh \<and> rightHigh then 1.0
                   else if leftHigh \<or> rightHigh then 0.5
                   else 0.0)
           | LUNGE \<Rightarrow>
               (let lKneeAngle = calculateAngle (landmarks 23) (landmarks 25) (landmarks 27);
                    rKneeAngle = calculateAngle (landmarks 24) (landmarks 26) (landmarks 28);
                    lIntensity = normalize lKneeAngle 160 90 True;
                    rIntensity = normalize rKneeAngle 160 90 True
                in max lIntensity rIntensity)))"

text \<open>The smoothing line: \<open>intensityRef.current * 0.8 + currentIntensity * 0.2\<close>.\<close>

definition smooth :: "real \<Rightarrow> real \<Rightarrow> real" where
  "smooth prev raw = prev * 0.8 + raw * 0.2"

text \<open>
  The sound trigger for exertion: from the smoothed intensity and the latch
  \<open>wasJumpingRef\<close>, whether the jump cue is played and the new latch.
\<close>

definition exertionTrigger :: "real \<Rightarrow> bool \<Rightarrow> bool \<times> bool" where
  "exertionTrigger intensity wasJumping =
     (if intensity > 0.6 \<and> \<not> wasJumping then (True, True)
      else if intensity < 0.4 then (False, False)
      else (False, wasJumping))"

definition onPoseResults ::
  "bool \<Rightarrow> real \<Rightarrow> GameMode \<Rightarrow> GameState \<Rightarrow> PoseResults \<Rightarrow> Game \<Rightarrow> Game \<times> Sound list" where
  "onPoseResults isSimulation simIntensity mode gs results g =
     (let cur = currentIntensity isSimulation simIntensity mode results;
          intensity = smooth (intensityRef g) cur;
          (fired, latch) = exertionTrigger intensity (wasJumpingRef g);
          fb = (if intensity > 0.8 then ExcellentForm
                else if intensity > 0.4 then KeepGoing
                else if gs = PLAYING then MoveToFly
                else feedback g)
      in (g\<lparr>intensityRef := intensity, wasJumpingRef := latch, feedback := fb\<rparr>,
          if fired then [jump_cue] else []))"

text \<open>
  A run of the exertion trigger over the smoothed intensities of successive frames:
  the frames on which the jump cue fires, and the latch after the run.
\<close>

fun exertionRun :: "bool \<Rightarrow> real list \<Rightarrow> bool list" where
  "exertionRun wasJumping [] = []"
| "exertionRun wasJumping (i # is) =
     fst (exertionTrigger i wasJumping) # exertionRun (snd (exertionTrigger i wasJumping)) is"

fun latchAfter :: "bool \<Rightarrow> real list \<Rightarrow> bool" where
  "latchAfter wasJumping [] = wasJumping"
| "latchAfter wasJumping (i # is) = latchAfter (snd (exertionTrigger i wasJumping)) is"

section \<open>GameCanvas: sparkles\<close>

text \<open>
  \<open>Math.random()\<close> is an input of the model: \<open>rnd\<close> is the sequence of the draws of
  one frame, in the order of the calls, each in \<open>[0, 1)\<close>. \<open>createSparkles rnd k\<close>
  takes its draws from index \<open>k\<close> on, five per particle, and returns the 40 particles
  it pushes. A colour index outside the palette (no draw in \<open>[0, 1)\<close> gives one) reads
  \<open>undefined\<close> in the source and the empty string here.
\<close>

definition colors :: "string list" where
  "colors = [''#FFD700'', ''#FF4500'', ''#00BFFF'', ''#FFFFFF'', ''#F72585'', ''#4CC9F0'']"

definition colorAt :: "nat \<Rightarrow> string" where
  "colorAt i = (if i < length colors then colors ! i else [])"

definition newSparkle :: "(nat \<Rightarrow> real) \<Rightarrow> nat \<Rightarrow> Sparkle" where
  "newSparkle rnd k =
     \<lparr>sp_x = CANVAS_WIDTH / 2,
      sp_y = 120,
      sp_vx = (rnd k - 0.5) * 15,
      sp_vy = (rnd (k + 1) - 0.5) * 15,
      sp_size = rnd (k + 2) * 6 + 3,
      sp_color = colorAt (nat \<lfloor>rnd (k + 3) * real (length colors)\<rfloor>),
      sp_alpha = 1.0,
      sp_decay = rnd (k + 4) * 0.02 + 0.01,
      sp_type = star\<rparr>"

definition createSparkles :: "(nat \<Rightarrow> real) \<Rightarrow> nat \<Rightarrow> Sparkle list" where
  "createSparkles rnd k = map (\<lambda>i. newSparkle rnd (k + 5 * i)) [0..<40]"

text \<open>
  The sparkle loop of \<open>updateGame\<close>: from the last index down, move the particle, fade
  it, and splice it out once its alpha is not positive. The first argument is the number
  of indices still to visit.
\<close>

fun sparkleLoop :: "nat \<Rightarrow> Sparkle list \<Rightarrow> Sparkle list" where
  "sparkleLoop 0 sps = sps"
| "sparkleLoop (Suc i) sps =
     (let s0 = sps ! i;
          s1 = s0\<lparr>sp_x := sp_x s0 + sp_vx s0,
                  sp_y := sp_y s0 + sp_vy s0,
                  sp_vy := sp_vy s0 + 0.2,
                  sp_alpha := sp_alpha s0 - sp_decay s0\<rparr>;
          sps1 = sps[i := s1]
      in sparkleLoop i (if sp_alpha s1 \<le> 0 then take i sps1 @ drop (Suc i) sps1 else sps1))"

section \<open>GameCanvas: the game loop (\<open>updateGame\<close>)\<close>

text \<open>The physics parameters the \<open>switch\<close> on the difficulty selects.\<close>

definition gravity :: "Difficulty \<Rightarrow> real" where
  "gravity d = (case d of EASY \<Rightarrow> 0.12 | MEDIUM \<Rightarrow> 0.5 | HARD \<Rightarrow> 1.1)"

definition liftMultiplier :: "Difficulty \<Rightarrow> real" where
  "liftMultiplier d = (case d of EASY \<Rightarrow> 4.0 | MEDIUM \<Rightarrow> 1.8 | HARD \<Rightarrow> 1.1)"

definition spawnRate :: "Difficulty \<Rightarrow> nat" where
  "spawnRate d = (case d of EASY \<Rightarrow> 300 | MEDIUM \<Rightarrow> 100 | HARD \<Rightarrow> 40)"

definition speedIncrement :: "Difficulty \<Rightarrow> real" where
  "speedIncrement d = (case d of EASY \<Rightarrow> 0.002 | MEDIUM \<Rightarrow> 0.05 | HARD \<Rightarrow> 0.15)"

text \<open>Player physics and boundaries.\<close>

definition playerPhysics :: "Game \<Rightarrow> Game" where
  "playerPhysics g =
     (let lift = intensityRef g * liftMultiplier (difficulty g);
          v1 = playerVelocity g - lift;
          v2 = v1 + gravity (difficulty g);
          v3 = max (- 15) (min 15 v2);
          y1 = playerY g + v3;
          hitFloor = (y1 > CANVAS_HEIGHT - 60);
          y2 = (if hitFloor then CANVAS_HEIGHT - 60 else y1);
          v4 = (if hitFloor then 0 else v3);
          hitTop = (y2 < 0);
          y3 = (if hitTop then 0 else y2);
          v5 = (if hitTop then 0 else v4)
      in g\<lparr>playerY := y3, playerVelocity := v5\<rparr>)"

text \<open>
  The dynamic spawn logic. \<open>rnd 0\<close> is the draw \<open>rand\<close>; a gate and a crate take one
  more draw, a pillar two (\<open>isTop\<close>, then \<open>height\<close>). The result is the new state and
  the number of draws taken.
\<close>

definition gapSize :: "Difficulty \<Rightarrow> real" where
  "gapSize d = (if d = EASY then 300 else (if d = MEDIUM then 180 else 150))"

definition gateObstacles :: "Difficulty \<Rightarrow> real \<Rightarrow> Obstacle list" where
  "gateObstacles d r =
     (let gapY = r * (CANVAS_HEIGHT - gapSize d - 100) + 50
      in [\<lparr>obs_x = CANVAS_WIDTH, obs_y = 0, obs_w = 60, obs_h = gapY,
            obs_type = block, obs_color = ''#7209B7''\<rparr>,
          \<lparr>obs_x = CANVAS_WIDTH, obs_y = gapY + gapSize d, obs_w = 60,
            obs_h = CANVAS_HEIGHT - (gapY + gapSize d),
            obs_type = block, obs_color = ''#7209B7''\<rparr>])"

definition crateObstacle :: "real \<Rightarrow> Obstacle" where
  "crateObstacle r =
     \<lparr>obs_x = CANVAS_WIDTH, obs_y = r * (CANVAS_HEIGHT - 200) + 100, obs_w = 80, obs_h = 80,
      obs_type = floating, obs_color = ''#FF9F1C''\<rparr>"

definition pillarObstacle :: "real \<Rightarrow> real \<Rightarrow> Obstacle" where
  "pillarObstacle r1 r2 =
     (let isTop = (r1 > 0.5);
          height = r2 * 200 + 100
      in \<lparr>obs_x = CANVAS_WIDTH, obs_y = (if isTop then 0 else CANVAS_HEIGHT - height),
          obs_w = 60, obs_h = height, obs_type = block, obs_color = ''#F72585''\<rparr>)"

definition spawnObstacles :: "(nat \<Rightarrow> real) \<Rightarrow> Game \<Rightarrow> Game \<times> nat" where
  "spawnObstacles rnd g =
     (if frameRef g mod spawnRate (difficulty g) = 0 then
        (let isAdvancedLevel = (score g \<ge> 10);
             rand = rnd 0;
             pushed = (if isAdvancedLevel \<and> rand > 0.6 then gateObstacles (difficulty g) (rnd 1)
                       else if isAdvancedLevel \<and> rand > 0.4 then [crateObstacle (rnd 1)]
                       else [pillarObstacle (rnd 1) (rnd 2)]);
             draws = (if isAdvancedLevel \<and> rand > 0.4 then 2 else 3)
         in (g\<lparr>obstacles := obstacles g @ pushed,
                gameSpeed := gameSpeed g + speedIncrement (difficulty g)\<rparr>, draws))
      else (g, 0))"

text \<open>
  What a frame asks of React and of the audio device: the cues played, the calls of
  \<open>setGameState\<close> and \<open>setHighScore\<close> (the last value wins) and the number of
  \<open>setScore\<close> updaters queued. The frame itself keeps reading the \<open>score\<close>,
  \<open>highScore\<close> and \<open>gameState\<close> of its closure; the requests take effect when the
  frame is over.
\<close>

record Effects =
  sounds :: "Sound list"
  setGameState :: "GameState option"
  setHighScore :: "nat option"
  setScoreCalls :: nat

definition noEffects :: Effects where
  "noEffects = \<lparr>sounds = [], setGameState = None, setHighScore = None, setScoreCalls = 0\<rparr>"

text \<open>The collision check between the avatar hitbox at height \<open>py\<close> and an obstacle.\<close>

definition collides :: "real \<Rightarrow> Obstacle \<Rightarrow> bool" where
  "collides py ob =
     (200 + 30 > obs_x ob \<and> 200 - 30 < obs_x ob + obs_w ob
      \<and> py + 30 > obs_y ob \<and> py - 30 < obs_y ob + obs_h ob)"

text \<open>
  The obstacle loop, \<open>for (let i = length - 1; i >= 0; i--)\<close>: the first numeric
  argument after the closure values is the number of indices still to visit, so the
  index visited is \<open>i\<close> in the equation for \<open>Suc i\<close>. The loop starts at the length of
  the list and a splice only removes the index just visited, so \<open>obs ! i\<close> is always in
  range.
\<close>

fun obstacleLoop ::
  "real \<Rightarrow> real \<Rightarrow> nat \<Rightarrow> nat \<Rightarrow> nat \<Rightarrow> Obstacle list \<times> Effects \<Rightarrow> Obstacle list \<times> Effects" where
  "obstacleLoop speed py sc hs 0 st = st"
| "obstacleLoop speed py sc hs (Suc i) (obs, e) =
     (let ob = (obs ! i)\<lparr>obs_x := obs_x (obs ! i) - speed\<rparr>;
          obs1 = obs[i := ob];
          e1 = (if collides py ob
                then e\<lparr>sounds := sounds e @ [gameover_cue],
                       setGameState := Some GAME_OVER,
                       setHighScore := (if sc > hs then Some sc else setHighScore e)\<rparr>
                else e)
      in obstacleLoop speed py sc hs i
           (if obs_x ob + obs_w ob < 0
            then (take i obs1 @ drop (Suc i) obs1, e1\<lparr>setScoreCalls := setScoreCalls e1 + 1\<rparr>)
            else (obs1, e1)))"

definition updateObstacles ::
  "real \<Rightarrow> real \<Rightarrow> nat \<Rightarrow> nat \<Rightarrow> Obstacle list \<Rightarrow> Obstacle list \<times> Effects" where
  "updateObstacles speed py sc hs obs = obstacleLoop speed py sc hs (length obs) (obs, noEffects)"

text \<open>
  The queued \<open>setScore\<close> updaters, run in order on the score: each adds one and, on a
  positive multiple of 10, plays the score cue and creates sparkles (with the draws from
  index \<open>k\<close> on).
\<close>

fun applyScoreCalls ::
  "(nat \<Rightarrow> real) \<Rightarrow> nat \<Rightarrow> nat \<Rightarrow> nat \<Rightarrow> Sparkle list \<Rightarrow> nat \<times> Sound list \<times> Sparkle list" where
  "applyScoreCalls rnd k 0 prev sps = (prev, [], sps)"
| "applyScoreCalls rnd k (Suc n) prev sps =
     (let newScore = prev + 1
      in if newScore > 0 \<and> newScore mod 10 = 0
         then (let r = applyScoreCalls rnd (k + 200) n newScore (sps @ createSparkles rnd k)
               in (fst r, score_cue # fst (snd r), snd (snd r)))
         else applyScoreCalls rnd k n newScore sps)"

text \<open>The part of the frame that runs only in the state \<open>PLAYING\<close>.\<close>

definition playingFrame :: "(nat \<Rightarrow> real) \<Rightarrow> Game \<Rightarrow> Game \<times> Effects \<times> nat" where
  "playingFrame rnd g =
     (let g1 = playerPhysics g;
          g2 = fst (spawnObstacles rnd g1);
          draws = snd (spawnObstacles rnd g1);
          r = updateObstacles (gameSpeed g2) (playerY g2) (score g) (highScore g) (obstacles g2)
      in (g2\<lparr>obstacles := fst r\<rparr>, snd r, draws))"

text \<open>
  One call of \<open>updateGame\<close>. \<open>canvas\<close> says whether the canvas and its 2-D context
  exist; without them the callback returns at once (and schedules no further frame).
  The drawing is not modelled. The state returned is the one the next frame sees: the
  refs as the frame left them and the React state after the queued requests.
\<close>

definition updateGame :: "bool \<Rightarrow> (nat \<Rightarrow> real) \<Rightarrow> Game \<Rightarrow> Game \<times> Sound list" where
  "updateGame canvas rnd g =
     (if \<not> canvas then (g, [])
      else
        (let p = (if gameState g = PLAYING then playingFrame rnd g else (g, noEffects, 0));
             g1 = fst p;
             e = fst (snd p);
             draws = snd (snd p);
             g2 = g1\<lparr>sparklesRef := sparkleLoop (length (sparklesRef g1)) (sparklesRef g1)\<rparr>;
             g3 = g2\<lparr>frameRef := frameRef g2 + 1\<rparr>;
             u = applyScoreCalls rnd draws (setScoreCalls e) (score g3) (sparklesRef g3)
         in (g3\<lparr>gameState := (case setGameState e of Some st \<Rightarrow> st | None \<Rightarrow> gameState g3),
                highScore := (case setHighScore e of Some h \<Rightarrow> h | None \<Rightarrow> highScore g3),
                score := fst u,
                sparklesRef := snd (snd u)\<rparr>,
             sounds e @ fst (snd u))))"

text \<open>Successive frames with a canvas, one sequence of draws per frame.\<close>

fun runFrames :: "(nat \<Rightarrow> real) list \<Rightarrow> Game \<Rightarrow> Game" where
  "runFrames [] g = g"
| "runFrames (rnd # rnds) g = runFrames rnds (fst (updateGame True rnd g))"


section \<open>GameCanvas: game control (\<open>startGame\<close>)\<close>

definition startGame :: "Game \<Rightarrow> Game \<times> Sound list" where
  "startGame g =
     (g\<lparr>score := 0,
        playerY := CANVAS_HEIGHT / 2,
        obstacles := [],
        sparklesRef := [],
        playerVelocity := 0,
        gameSpeed := (if difficulty g = EASY then 3 else if difficulty g = MEDIUM then 6 else 10),
        gameState := PLAYING\<rparr>,
      [start_cue])"

section \<open>Notation for the proofs\<close>

text \<open>
  An obstacle scrolled left by \<open>d\<close>, the exit test of the obstacle loop, and the number
  of the frame on which an obstacle at \<open>(x, w)\<close> scrolling at speed \<open>s\<close> first
  passes that test.
\<close>

abbreviation moved :: "real \<Rightarrow> Obstacle \<Rightarrow> Obstacle" where
  "moved d ob \<equiv> ob\<lparr>obs_x := obs_x ob - d\<rparr>"

abbreviation exited :: "Obstacle \<Rightarrow> bool" where
  "exited ob \<equiv> obs_x ob + obs_w ob < 0"


section \<open>Sample inputs\<close>

text \<open>
  A pose whose hip (23), knee (25) and ankle (27) form a right angle at the knee, with
  visibility \<open>v\<close> on every landmark.
\<close>

definition squatPose :: "real \<Rightarrow> nat \<Rightarrow> Point" where
  "squatPose v i =
     (if i = 23 then \<lparr>pt_x = 0.5, pt_y = 0.3, visibility = Some v\<rparr>
      else if i = 25 then \<lparr>pt_x = 0.5, pt_y = 0.5, visibility = Some v\<rparr>
      else \<lparr>pt_x = 0.7, pt_y = 0.5, visibility = Some v\<rparr>)"

text \<open>
  Game states: a run in progress with a crate just ahead of the avatar, a finished run,
  a run about to spawn a gate, a run with a gate about to leave the field; a constant
  sequence of draws; a sequence of smoothed intensities that rises and falls twice.
\<close>

definition game0 :: Game where
  "game0 = \<lparr>gameState = PLAYING, difficulty = MEDIUM, score = 7, highScore = 5,
            feedback = MoveToFly, playerY = 360, playerVelocity = 0, intensityRef = 0,
            wasJumpingRef = False,
            obstacles = [\<lparr>obs_x = 206, obs_y = 300, obs_w = 80, obs_h = 80,
                          obs_type = floating, obs_color = ''#FF9F1C''\<rparr>],
            gameSpeed = 6, frameRef = 1, sparklesRef = []\<rparr>"

definition gameOver0 :: Game where
  "gameOver0 = \<lparr>gameState = GAME_OVER, difficulty = MEDIUM, score = 7, highScore = 7,
            feedback = MoveToFly, playerY = 360, playerVelocity = 0, intensityRef = 0,
            wasJumpingRef = False, obstacles = [],
            gameSpeed = 6, frameRef = 98, sparklesRef = []\<rparr>"

definition rnd0 :: "nat \<Rightarrow> real" where
  "rnd0 i = 7 / 10"

definition ramp :: "real list" where
  "ramp = [0, 0.5, 0.7, 1, 0.7, 0.5, 0.7, 0.3, 0.7]"



section \<open>The normalize primitive\<close>

text \<open>
  C8. For \<open>min < max\<close>: a value at or below \<open>min\<close> normalizes to 0 (non-inverse), a value
  at or above \<open>max\<close> normalizes to 1 (non-inverse), and the inverse result is one minus
  the non-inverse result.
\<close>

theorem normalize_primitive:
  assumes "minv < maxv"
  shows "(v \<le> minv \<longrightarrow> normalize v minv maxv False = 0)
       \<and> (maxv \<le> v \<longrightarrow> normalize v minv maxv False = 1)
       \<and> normalize v minv maxv True = 1 - normalize v minv maxv False"
proof -
  have d: "0 < maxv - minv" using assms by simp
  have lo: "normalize v minv maxv False = 0" if "v \<le> minv"
  proof -
    have "(v - minv) / (maxv - minv) \<le> 0"
      using that d by (simp add: divide_le_0_iff)
    then show ?thesis by (simp add: normalize_def Let_def)
  qed
  have hi: "normalize v minv maxv False = 1" if "maxv \<le> v"
  proof -
    have "1 \<le> (v - minv) / (maxv - minv)"
      using that d by (simp add: le_divide_eq)
    then show ?thesis by (simp add: normalize_def Let_def)
  qed
  have inv: "normalize v minv maxv True = 1 - normalize v minv maxv False"
    by (simp add: normalize_def Let_def)
  from lo hi inv show ?thesis by blast
qed

text \<open>The reference range of the squat mapping, below, above and inside it.\<close>

theorem normalize_primitive_witness:
  "(70::real) < 160
   \<and> normalize 50 70 160 False = 0
   \<and> normalize 200 70 160 False = 1
   \<and> normalize 90 70 160 True = 1 - normalize 90 70 160 False"
  using normalize_primitive [of 70 160 50] normalize_primitive [of 70 160 200]
    normalize_primitive [of 70 160 90]
  by simp

section \<open>The squat mapping\<close>

text \<open>
  The call site passes the range as \<open>(160, 70)\<close> and sets \<open>inverse\<close> as well: the
  two inversions cancel.
\<close>

lemma normalize_swapped:
  "normalize v 160 70 True = normalize v 70 160 False"
proof -
  have "(v - 160) / (70 - 160) = 1 - (v - 70) / (160 - 70)"
    by (simp add: field_simps)
  then show ?thesis
    by (simp add: normalize_def Let_def min_def max_def)
qed

lemma squatPose_angle: "calculateAngle (squatPose v 23) (squatPose v 25) (squatPose v 27) = 90"
  by (simp add: calculateAngle_def squatPose_def atan2_def Let_def)

text \<open>
  C1. In squat mode the code computes \<open>normalize(angle, 160, 70, true)\<close>, which is
  one minus \<open>normalize(angle, 70, 160, true)\<close>: for the sample pose, whose
  hip-knee-ankle angle is 90 degrees, the raw intensity is \<open>2/9\<close> (about 0.222), while
  \<open>normalize(90, 70, 160, true)\<close> is \<open>7/9\<close> (about 0.778). A deeper squat lowers
  the intensity the code computes.
\<close>

theorem squat_mapping_in_code:
  "currentIntensity False s SQUAT (Some lm)
     = 1 - normalize (calculateAngle (lm 23) (lm 25) (lm 27)) 70 160 True
   \<and> calculateAngle (squatPose 1 23) (squatPose 1 25) (squatPose 1 27) = 90
   \<and> currentIntensity False 0 SQUAT (Some (squatPose 1)) = 2 / 9
   \<and> normalize 90 70 160 True = 7 / 9"
proof -
  have a: "currentIntensity False s SQUAT (Some lm)
     = 1 - normalize (calculateAngle (lm 23) (lm 25) (lm 27)) 70 160 True"
    by (simp add: currentIntensity_def Let_def normalize_swapped) (simp add: normalize_def Let_def)
  have b: "normalize 90 160 70 True = 2 / 9"
    by (simp add: normalize_def Let_def)
  have c: "currentIntensity False 0 SQUAT (Some (squatPose 1)) = 2 / 9"
    by (simp add: currentIntensity_def Let_def squatPose_angle b)
  have d: "normalize 90 70 160 True = 7 / 9"
    by (simp add: normalize_def Let_def)
  from a c d squatPose_angle show ?thesis by blast
qed

section \<open>Landmark visibility\<close>

text \<open>
  In squat mode, the sample pose with visibility 0.1 on every landmark (the knee
  included) still yields the raw intensity \<open>2/9\<close>, not 0.
\<close>

theorem low_visibility_counterexample:
  "visibility (squatPose (1 / 10) 25) = Some (1 / 10)
   \<and> (1 / 10 :: real) < 0.5
   \<and> currentIntensity False 0 SQUAT (Some (squatPose (1 / 10))) = 2 / 9"
proof -
  have b: "normalize 90 160 70 True = 2 / 9"
    by (simp add: normalize_def Let_def)
  have c: "currentIntensity False 0 SQUAT (Some (squatPose (1 / 10))) = 2 / 9"
    by (simp add: currentIntensity_def Let_def squatPose_angle b)
  show ?thesis using c by (simp add: squatPose_def)
qed

text \<open>
  C6, as the code has it. Outside simulation the raw intensity is 0 when the pose
  sample has no landmarks; when it has landmarks, the raw intensity of every mode
  (squat and lunge included) depends on their positions only: replacing the visibility
  of every landmark by any other value leaves it unchanged.
\<close>

theorem intensity_ignores_visibility:
  "currentIntensity False s mode None = 0
   \<and> currentIntensity sim s mode (Some (\<lambda>i. (lm i)\<lparr>visibility := vis i\<rparr>))
       = currentIntensity sim s mode (Some lm)"
  by (cases mode) (simp_all add: currentIntensity_def calculateAngle_def Let_def)

section \<open>Smoothing\<close>

text \<open>
  C7. The handler stores \<open>prev * 0.8 + raw * 0.2\<close> as the new smoothed intensity,
  where \<open>prev\<close> is the stored value and \<open>raw\<close> the raw intensity of the frame; when
  both lie in \<open>[0, 1]\<close>, so does the result.
\<close>

theorem smoothing:
  "intensityRef (fst (onPoseResults sim s mode gs results g))
     = intensityRef g * 0.8 + currentIntensity sim s mode results * 0.2
   \<and> smooth prev raw = prev * 0.8 + raw * 0.2
   \<and> (0 \<le> prev \<and> prev \<le> 1 \<and> 0 \<le> raw \<and> raw \<le> 1
        \<longrightarrow> 0 \<le> smooth prev raw \<and> smooth prev raw \<le> 1)"
  by (simp add: onPoseResults_def smooth_def Let_def split_def)

text \<open>
  The stored value 0.5 with the raw intensity 1; and the handler in simulation at
  intensity 1, from the stored value 0.
\<close>

theorem smoothing_witness:
  "(0::real) \<le> 1 / 2 \<and> (1 / 2 :: real) \<le> 1 \<and> (0::real) \<le> 1 \<and> (1::real) \<le> 1
   \<and> smooth (1 / 2) 1 = 3 / 5
   \<and> 0 \<le> smooth (1 / 2) 1 \<and> smooth (1 / 2) 1 \<le> 1
   \<and> intensityRef (fst (onPoseResults True 1 SQUAT GAME_OVER None gameOver0)) = 1 / 5"
  using smoothing [of True 1 SQUAT GAME_OVER None gameOver0 "1 / 2" 1]
  by (simp add: smooth_def currentIntensity_def gameOver0_def)

section \<open>Exertion events\<close>

lemma exertionRun_length: "length (exertionRun w xs) = length xs"
  by (induction xs arbitrary: w) simp_all

lemma latchAfter_append: "latchAfter w (xs @ ys) = latchAfter (latchAfter w xs) ys"
  by (induction xs arbitrary: w) simp_all

lemma latchAfter_take_Suc:
  "n < length xs \<Longrightarrow>
   latchAfter w (take (Suc n) xs) = snd (exertionTrigger (xs ! n) (latchAfter w (take n xs)))"
  by (simp add: take_Suc_conv_app_nth latchAfter_append)

lemma exertionRun_nth:
  "n < length xs \<Longrightarrow>
   exertionRun w xs ! n = fst (exertionTrigger (xs ! n) (latchAfter w (take n xs)))"
proof (induction xs arbitrary: w n)
  case Nil
  then show ?case by simp
next
  case (Cons x xs)
  then show ?case by (cases n) simp_all
qed

lemma fired_iff: "fst (exertionTrigger i w) = (i > 0.6 \<and> \<not> w)"
  by (simp add: exertionTrigger_def)

lemma fired_sets_latch: "fst (exertionTrigger i w) \<Longrightarrow> snd (exertionTrigger i w)"
  by (simp add: exertionTrigger_def split: if_splits)

lemma latch_kept: "w \<Longrightarrow> \<not> i < 0.4 \<Longrightarrow> snd (exertionTrigger i w)"
  by (simp add: exertionTrigger_def)

lemma latch_stays:
  assumes "latchAfter w (take (Suc m) xs)" and "m \<le> n" and "n < length xs"
    and "\<forall>k. m < k \<and> k \<le> n \<longrightarrow> \<not> xs ! k < 0.4"
  shows "latchAfter w (take (Suc n) xs)"
  using assms(2,3,4)
proof (induction n)
  case 0
  then show ?case using assms(1) by simp
next
  case (Suc n)
  show ?case
  proof (cases "m = Suc n")
    case True
    then show ?thesis using assms(1) by simp
  next
    case False
    then have "m \<le> n" using Suc.prems(1) by simp
    moreover have "n < length xs" using Suc.prems(2) by simp
    moreover have "\<forall>k. m < k \<and> k \<le> n \<longrightarrow> \<not> xs ! k < 0.4" using Suc.prems(3) by simp
    ultimately have ih: "latchAfter w (take (Suc n) xs)" by (rule Suc.IH)
    have "\<not> xs ! Suc n < 0.4" using Suc.prems(3) \<open>m \<le> n\<close> by simp
    then show ?thesis
      using ih Suc.prems(2) by (simp add: latchAfter_take_Suc [of "Suc n"] latch_kept)
  qed
qed

lemma onPoseResults_trigger:
  "snd (onPoseResults sim s mode gs results g)
     = (if fst (exertionTrigger (intensityRef (fst (onPoseResults sim s mode gs results g)))
                  (wasJumpingRef g)) then [jump_cue] else [])
   \<and> wasJumpingRef (fst (onPoseResults sim s mode gs results g))
     = snd (exertionTrigger (intensityRef (fst (onPoseResults sim s mode gs results g)))
                  (wasJumpingRef g))"
  by (simp add: onPoseResults_def Let_def split_def)

text \<open>
  C3. The handler plays the jump cue exactly when the trigger fires on the new
  smoothed intensity and the stored latch, and stores the trigger's latch. Over any
  sequence of smoothed intensities \<open>xs\<close>, started with the latch \<open>w\<close>: the cue fires
  on frame \<open>n\<close> exactly when \<open>xs ! n\<close> exceeds 0.6 while the latch before the frame is
  false; after a frame \<open>m\<close> that fired, the latch is true after every later frame \<open>n\<close>
  as long as no intensity from \<open>m + 1\<close> to \<open>n\<close> is below 0.4; so between two frames
  that fire there is a frame whose intensity is below 0.4.
\<close>

theorem exertion_hysteresis:
  "snd (onPoseResults sim s mode gs results g)
     = (if fst (exertionTrigger (intensityRef (fst (onPoseResults sim s mode gs results g)))
                  (wasJumpingRef g)) then [jump_cue] else [])
   \<and> wasJumpingRef (fst (onPoseResults sim s mode gs results g))
     = snd (exertionTrigger (intensityRef (fst (onPoseResults sim s mode gs results g)))
                  (wasJumpingRef g))
   \<and> length (exertionRun w xs) = length xs
   \<and> (\<forall>n. n < length xs \<longrightarrow>
         exertionRun w xs ! n = (xs ! n > 0.6 \<and> \<not> latchAfter w (take n xs)))
   \<and> (\<forall>m n. m \<le> n \<and> n < length xs \<and> exertionRun w xs ! m
              \<and> (\<forall>k. m < k \<and> k \<le> n \<longrightarrow> \<not> xs ! k < 0.4)
         \<longrightarrow> latchAfter w (take (Suc n) xs))
   \<and> (\<forall>m n. m < n \<and> n < length xs \<and> exertionRun w xs ! m \<and> exertionRun w xs ! n
         \<longrightarrow> (\<exists>k. m < k \<and> k < n \<and> xs ! k < 0.4))"
proof -
  have p2: "exertionRun w xs ! n = (xs ! n > 0.6 \<and> \<not> latchAfter w (take n xs))"
    if "n < length xs" for n
    using that by (simp add: exertionRun_nth fired_iff)
  have p3: "latchAfter w (take (Suc n) xs)"
    if "m \<le> n" "n < length xs" "exertionRun w xs ! m"
      "\<forall>k. m < k \<and> k \<le> n \<longrightarrow> \<not> xs ! k < 0.4" for m n
  proof -
    have m: "m < length xs" using that by simp
    have "fst (exertionTrigger (xs ! m) (latchAfter w (take m xs)))"
      using that(3) m by (simp add: exertionRun_nth)
    then have "latchAfter w (take (Suc m) xs)"
      using m by (simp add: latchAfter_take_Suc fired_sets_latch)
    then show ?thesis using that(1,2,4) by (rule latch_stays)
  qed
  have p4: "\<exists>k. m < k \<and> k < n \<and> xs ! k < 0.4"
    if mn: "m < n" and nl: "n < length xs"
      and fm: "exertionRun w xs ! m" and fn: "exertionRun w xs ! n" for m n
  proof (rule ccontr)
    assume no: "\<not> (\<exists>k. m < k \<and> k < n \<and> xs ! k < 0.4)"
    from mn obtain j where j: "n = Suc j" by (cases n) auto
    have "latchAfter w (take (Suc j) xs)"
    proof (rule p3 [of m j])
      show "m \<le> j" using mn j by simp
      show "j < length xs" using nl j by simp
      show "exertionRun w xs ! m" by (rule fm)
      show "\<forall>k. m < k \<and> k \<le> j \<longrightarrow> \<not> xs ! k < 0.4" using no j by auto
    qed
    moreover have "\<not> latchAfter w (take n xs)" using nl fn p2 by simp
    ultimately show False using j by simp
  qed
  have q2: "\<forall>n. n < length xs \<longrightarrow>
         exertionRun w xs ! n = (xs ! n > 0.6 \<and> \<not> latchAfter w (take n xs))"
    using p2 by blast
  have q3: "\<forall>m n. m \<le> n \<and> n < length xs \<and> exertionRun w xs ! m
              \<and> (\<forall>k. m < k \<and> k \<le> n \<longrightarrow> \<not> xs ! k < 0.4)
         \<longrightarrow> latchAfter w (take (Suc n) xs)"
    using p3 by blast
  have q4: "\<forall>m n. m < n \<and> n < length xs \<and> exertionRun w xs ! m \<and> exertionRun w xs ! n
         \<longrightarrow> (\<exists>k. m < k \<and> k < n \<and> xs ! k < 0.4)"
    using p4 by blast
  have h: "snd (onPoseResults sim s mode gs results g)
     = (if fst (exertionTrigger (intensityRef (fst (onPoseResults sim s mode gs results g)))
                  (wasJumpingRef g)) then [jump_cue] else [])"
    "wasJumpingRef (fst (onPoseResults sim s mode gs results g))
     = snd (exertionTrigger (intensityRef (fst (onPoseResults sim s mode gs results g)))
                  (wasJumpingRef g))"
    using onPoseResults_trigger [of sim s mode gs results g] by simp_all
  have len: "length (exertionRun w xs) = length xs" by (rule exertionRun_length)
  show ?thesis
    using h len q2 q3 q4 by (intro conjI)
qed

text \<open>
  Two ramps: the cue fires on frames 2 and 8 only, and frame 7, between them, is
  below 0.4.
\<close>

theorem exertion_hysteresis_witness:
  "exertionRun False ramp = [False, False, True, False, False, False, False, False, True]
   \<and> exertionRun False ramp ! 2 \<and> exertionRun False ramp ! 8
   \<and> (\<exists>k. 2 < k \<and> k < 8 \<and> ramp ! k < 0.4)"
proof -
  have r: "exertionRun False ramp = [False, False, True, False, False, False, False, False, True]"
    by (simp add: ramp_def exertionTrigger_def)
  have f: "exertionRun False ramp ! 2" "exertionRun False ramp ! 8"
    by (simp_all add: r)
  have l: "(8::nat) < length ramp" by (simp add: ramp_def)
  have "\<forall>m n. m < n \<and> n < length ramp \<and> exertionRun False ramp ! m \<and> exertionRun False ramp ! n
         \<longrightarrow> (\<exists>k. m < k \<and> k < n \<and> ramp ! k < 0.4)"
    using exertion_hysteresis [of True 1 SQUAT GAME_OVER None gameOver0 False ramp] by (elim conjE)
  then have "\<exists>k. 2 < k \<and> k < 8 \<and> ramp ! k < 0.4"
    using f l by simp
  with r f show ?thesis by simp
qed

section \<open>The obstacle loop and the frame\<close>

text \<open>
  The loop visits every obstacle once: the obstacles left are the scrolled ones that
  have not exited, in their order; one \<open>setScore\<close> updater is queued per exit, one
  game-over cue played per collision.
\<close>

lemma splice_take: "i < length xs \<Longrightarrow> take i (take i xs @ drop (Suc i) xs) = take i xs"
  by simp

lemma splice_drop: "i < length xs \<Longrightarrow> drop i (take i xs @ drop (Suc i) xs) = drop (Suc i) xs"
  by simp

lemma update_drop: "i < length xs \<Longrightarrow> drop i (xs[i := a]) = a # drop (Suc i) xs"
  by (simp add: drop_update_swap [symmetric] Cons_nth_drop_Suc [symmetric] upd_conv_take_nth_drop)

lemma obstacleLoop_obstacles:
  "i \<le> length obs \<Longrightarrow>
   fst (obstacleLoop speed py sc hs i (obs, e))
     = filter (\<lambda>b. \<not> exited b) (map (moved speed) (take i obs)) @ drop i obs"
proof (induction i arbitrary: obs e)
  case 0
  then show ?case by simp
next
  case (Suc i)
  then have i: "i < length obs" by simp
  show ?case
  proof (cases "exited (moved speed (obs ! i))")
    case True
    have len: "i \<le> length (take i (obs[i := moved speed (obs ! i)]) @ drop (Suc i) (obs[i := moved speed (obs ! i)]))"
      using i by simp
    show ?thesis
      using True i Suc.IH [OF len]
      by (simp add: Let_def take_Suc_conv_app_nth splice_take splice_drop)
  next
    case False
    have len: "i \<le> length (obs[i := moved speed (obs ! i)])" using i by simp
    show ?thesis
      using False i Suc.IH [OF len]
      by (simp add: Let_def take_Suc_conv_app_nth update_drop)
  qed
qed

lemma obstacleLoop_scoreCalls:
  "i \<le> length obs \<Longrightarrow>
   setScoreCalls (snd (obstacleLoop speed py sc hs i (obs, e)))
     = setScoreCalls e + length (filter exited (map (moved speed) (take i obs)))"
proof (induction i arbitrary: obs e)
  case 0
  then show ?case by simp
next
  case (Suc i)
  then have i: "i < length obs" by simp
  have l1: "i \<le> length (take i (obs[i := moved speed (obs ! i)]) @ drop (Suc i) (obs[i := moved speed (obs ! i)]))"
    using i by simp
  have l2: "i \<le> length (obs[i := moved speed (obs ! i)])" using i by simp
  show ?case
    using i Suc.IH [OF l1] Suc.IH [OF l2]
    by (simp add: Let_def take_Suc_conv_app_nth splice_take)
qed

lemma obstacleLoop_setGameState:
  "i \<le> length obs \<Longrightarrow>
   setGameState (snd (obstacleLoop speed py sc hs i (obs, e)))
     = (if \<exists>b \<in> set (take i obs). collides py (moved speed b) then Some GAME_OVER
        else setGameState e)"
proof (induction i arbitrary: obs e)
  case 0
  then show ?case by simp
next
  case (Suc i)
  then have i: "i < length obs" by simp
  have l1: "i \<le> length (take i (obs[i := moved speed (obs ! i)]) @ drop (Suc i) (obs[i := moved speed (obs ! i)]))"
    using i by simp
  have l2: "i \<le> length (obs[i := moved speed (obs ! i)])" using i by simp
  show ?case
    using i Suc.IH [OF l1] Suc.IH [OF l2]
    by (simp add: Let_def take_Suc_conv_app_nth splice_take)
qed

lemma obstacleLoop_setHighScore:
  "i \<le> length obs \<Longrightarrow>
   setHighScore (snd (obstacleLoop speed py sc hs i (obs, e)))
     = (if (\<exists>b \<in> set (take i obs). collides py (moved speed b)) \<and> sc > hs then Some sc
        else setHighScore e)"
proof (induction i arbitrary: obs e)
  case 0
  then show ?case by simp
next
  case (Suc i)
  then have i: "i < length obs" by simp
  have l1: "i \<le> length (take i (obs[i := moved speed (obs ! i)]) @ drop (Suc i) (obs[i := moved speed (obs ! i)]))"
    using i by simp
  have l2: "i \<le> length (obs[i := moved speed (obs ! i)])" using i by simp
  show ?case
    using i Suc.IH [OF l1] Suc.IH [OF l2]
    by (simp add: Let_def take_Suc_conv_app_nth splice_take)
qed

lemma obstacleLoop_sounds:
  "i \<le> length obs \<Longrightarrow>
   sounds (snd (obstacleLoop speed py sc hs i (obs, e)))
     = sounds e @ replicate (length (filter (collides py) (map (moved speed) (take i obs)))) gameover_cue"
proof (induction i arbitrary: obs e)
  case 0
  then show ?case by simp
next
  case (Suc i)
  then have i: "i < length obs" by simp
  have l1: "i \<le> length (take i (obs[i := moved speed (obs ! i)]) @ drop (Suc i) (obs[i := moved speed (obs ! i)]))"
    using i by simp
  have l2: "i \<le> length (obs[i := moved speed (obs ! i)])" using i by simp
  show ?case
    using i Suc.IH [OF l1] Suc.IH [OF l2]
    by (simp add: Let_def take_Suc_conv_app_nth splice_take replicate_append_same)
qed

lemma updateObstacles_obstacles:
  "fst (updateObstacles speed py sc hs obs) = filter (\<lambda>b. \<not> exited b) (map (moved speed) obs)"
  by (simp add: updateObstacles_def obstacleLoop_obstacles)

lemma updateObstacles_scoreCalls:
  "setScoreCalls (snd (updateObstacles speed py sc hs obs))
     = length (filter exited (map (moved speed) obs))"
  by (simp add: updateObstacles_def obstacleLoop_scoreCalls noEffects_def)

lemma updateObstacles_setGameState:
  "setGameState (snd (updateObstacles speed py sc hs obs))
     = (if \<exists>b \<in> set obs. collides py (moved speed b) then Some GAME_OVER else None)"
  by (simp add: updateObstacles_def obstacleLoop_setGameState noEffects_def)

lemma updateObstacles_setHighScore:
  "setHighScore (snd (updateObstacles speed py sc hs obs))
     = (if (\<exists>b \<in> set obs. collides py (moved speed b)) \<and> sc > hs then Some sc else None)"
  by (simp add: updateObstacles_def obstacleLoop_setHighScore noEffects_def)

lemma updateObstacles_sounds:
  "sounds (snd (updateObstacles speed py sc hs obs))
     = replicate (length (filter (collides py) (map (moved speed) obs))) gameover_cue"
  by (simp add: updateObstacles_def obstacleLoop_sounds noEffects_def)

lemma applyScoreCalls_score: "fst (applyScoreCalls rnd k n prev sps) = prev + n"
  by (induction n arbitrary: k prev sps) (simp_all add: Let_def)

lemma playerPhysics_bounds:
  "0 \<le> playerY (playerPhysics g) \<and> playerY (playerPhysics g) \<le> CANVAS_HEIGHT - 60
   \<and> - 15 \<le> playerVelocity (playerPhysics g) \<and> playerVelocity (playerPhysics g) \<le> 15"
  by (simp add: playerPhysics_def Let_def CANVAS_HEIGHT_def)

lemma playerPhysics_other [simp]:
  "gameState (playerPhysics g) = gameState g"
  "difficulty (playerPhysics g) = difficulty g"
  "score (playerPhysics g) = score g"
  "highScore (playerPhysics g) = highScore g"
  "obstacles (playerPhysics g) = obstacles g"
  "gameSpeed (playerPhysics g) = gameSpeed g"
  "frameRef (playerPhysics g) = frameRef g"
  "sparklesRef (playerPhysics g) = sparklesRef g"
  by (simp_all add: playerPhysics_def Let_def)

lemma spawnObstacles_other [simp]:
  "gameState (fst (spawnObstacles rnd g)) = gameState g"
  "difficulty (fst (spawnObstacles rnd g)) = difficulty g"
  "score (fst (spawnObstacles rnd g)) = score g"
  "highScore (fst (spawnObstacles rnd g)) = highScore g"
  "playerY (fst (spawnObstacles rnd g)) = playerY g"
  "playerVelocity (fst (spawnObstacles rnd g)) = playerVelocity g"
  "frameRef (fst (spawnObstacles rnd g)) = frameRef g"
  "sparklesRef (fst (spawnObstacles rnd g)) = sparklesRef g"
  by (simp_all add: spawnObstacles_def Let_def)

lemma updateGame_playing:
  assumes "gameState g = PLAYING"
  shows "playerY (fst (updateGame True rnd g)) = playerY (playerPhysics g)"
    and "playerVelocity (fst (updateGame True rnd g)) = playerVelocity (playerPhysics g)"
    and "obstacles (fst (updateGame True rnd g))
           = fst (updateObstacles (gameSpeed (fst (spawnObstacles rnd (playerPhysics g))))
                    (playerY (playerPhysics g)) (score g) (highScore g)
                    (obstacles (fst (spawnObstacles rnd (playerPhysics g)))))"
    and "gameSpeed (fst (updateGame True rnd g)) = gameSpeed (fst (spawnObstacles rnd (playerPhysics g)))"
    and "score (fst (updateGame True rnd g))
           = score g + setScoreCalls (snd (updateObstacles (gameSpeed (fst (spawnObstacles rnd (playerPhysics g))))
                    (playerY (playerPhysics g)) (score g) (highScore g)
                    (obstacles (fst (spawnObstacles rnd (playerPhysics g))))))"
    and "gameState (fst (updateGame True rnd g))
           = (case setGameState (snd (updateObstacles (gameSpeed (fst (spawnObstacles rnd (playerPhysics g))))
                    (playerY (playerPhysics g)) (score g) (highScore g)
                    (obstacles (fst (spawnObstacles rnd (playerPhysics g)))))) of
                Some st \<Rightarrow> st | None \<Rightarrow> PLAYING)"
    and "highScore (fst (updateGame True rnd g))
           = (case setHighScore (snd (updateObstacles (gameSpeed (fst (spawnObstacles rnd (playerPhysics g))))
                    (playerY (playerPhysics g)) (score g) (highScore g)
                    (obstacles (fst (spawnObstacles rnd (playerPhysics g)))))) of
                Some h \<Rightarrow> h | None \<Rightarrow> highScore g)"
    and "set (sounds (snd (updateObstacles (gameSpeed (fst (spawnObstacles rnd (playerPhysics g))))
                    (playerY (playerPhysics g)) (score g) (highScore g)
                    (obstacles (fst (spawnObstacles rnd (playerPhysics g)))))))
           \<subseteq> set (snd (updateGame True rnd g))"
  using assms
  by (simp_all add: updateGame_def playingFrame_def Let_def applyScoreCalls_score
      split: option.split)

lemma updateGame_frame_counter:
  "frameRef (fst (updateGame True rnd g)) = Suc (frameRef g)"
  by (simp add: updateGame_def playingFrame_def Let_def)

lemma updateGame_other:
  "difficulty (fst (updateGame True rnd g)) = difficulty g"
  by (simp add: updateGame_def playingFrame_def Let_def)

section \<open>Avatar bounds\<close>

text \<open>
  C2. Whatever the state before it, after a frame in the state \<open>PLAYING\<close> the
  avatar's vertical position lies in \<open>[0, CANVAS_HEIGHT - 60]\<close> and its velocity in
  \<open>[-15, 15]\<close>; hence after each frame of any sequence of such frames.
\<close>

theorem avatar_bounds:
  assumes "gameState g = PLAYING"
  shows "0 \<le> playerY (fst (updateGame True rnd g))
       \<and> playerY (fst (updateGame True rnd g)) \<le> CANVAS_HEIGHT - 60
       \<and> - 15 \<le> playerVelocity (fst (updateGame True rnd g))
       \<and> playerVelocity (fst (updateGame True rnd g)) \<le> 15"
  using playerPhysics_bounds [of g] by (simp add: updateGame_playing [OF assms])

theorem avatar_bounds_witness:
  "gameState game0 = PLAYING
   \<and> 0 \<le> playerY (fst (updateGame True rnd0 game0))
   \<and> playerY (fst (updateGame True rnd0 game0)) \<le> CANVAS_HEIGHT - 60
   \<and> - 15 \<le> playerVelocity (fst (updateGame True rnd0 game0))
   \<and> playerVelocity (fst (updateGame True rnd0 game0)) \<le> 15"
proof -
  have h: "gameState game0 = PLAYING" by (simp add: game0_def)
  show ?thesis using h avatar_bounds [OF h, of rnd0] by simp
qed

section \<open>Collision\<close>

text \<open>
  C5. In a frame in the state \<open>PLAYING\<close>, if some obstacle of the field (after the
  spawn of the frame), scrolled by the frame's speed, overlaps the avatar hitbox at the
  avatar's new height, then the state after the frame is \<open>GAME_OVER\<close>, the game-over
  cue is among the cues of the frame, and the high score is the maximum of the old high
  score and the score the frame read.
\<close>

theorem collision_ends_run:
  assumes "gameState g = PLAYING"
    and "ob \<in> set (obstacles (fst (spawnObstacles rnd (playerPhysics g))))"
    and "collides (playerY (playerPhysics g))
           (ob\<lparr>obs_x := obs_x ob - gameSpeed (fst (spawnObstacles rnd (playerPhysics g)))\<rparr>)"
  shows "gameState (fst (updateGame True rnd g)) = GAME_OVER
       \<and> gameover_cue \<in> set (snd (updateGame True rnd g))
       \<and> highScore (fst (updateGame True rnd g)) = max (highScore g) (score g)"
proof -
  let ?g2 = "fst (spawnObstacles rnd (playerPhysics g))"
  let ?r = "updateObstacles (gameSpeed ?g2) (playerY (playerPhysics g)) (score g) (highScore g) (obstacles ?g2)"
  have hit: "\<exists>b \<in> set (obstacles ?g2). collides (playerY (playerPhysics g)) (moved (gameSpeed ?g2) b)"
    using assms(2,3) by blast
  have st: "setGameState (snd ?r) = Some GAME_OVER"
    using hit by (simp add: updateObstacles_setGameState)
  have hs: "setHighScore (snd ?r) = (if score g > highScore g then Some (score g) else None)"
    using hit by (simp add: updateObstacles_setHighScore)
  have "gameover_cue \<in> set (sounds (snd ?r))"
    using hit by (auto simp add: updateObstacles_sounds filter_map filter_empty_conv o_def)
  then have snd: "gameover_cue \<in> set (snd (updateGame True rnd g))"
    using updateGame_playing(8) [OF assms(1), of rnd] by blast
  show ?thesis
    using st hs snd by (simp add: updateGame_playing [OF assms(1)])
qed

theorem collision_ends_run_witness:
  "gameState game0 = PLAYING
   \<and> hd (obstacles game0) \<in> set (obstacles (fst (spawnObstacles rnd0 (playerPhysics game0))))
   \<and> collides (playerY (playerPhysics game0))
        ((hd (obstacles game0))\<lparr>obs_x := obs_x (hd (obstacles game0))
            - gameSpeed (fst (spawnObstacles rnd0 (playerPhysics game0)))\<rparr>)
   \<and> gameState (fst (updateGame True rnd0 game0)) = GAME_OVER
   \<and> gameover_cue \<in> set (snd (updateGame True rnd0 game0))
   \<and> highScore game0 = 5 \<and> score game0 = 7
   \<and> highScore (fst (updateGame True rnd0 game0)) = 7"
proof -
  have h1: "gameState game0 = PLAYING" by (simp add: game0_def)
  have sp: "fst (spawnObstacles rnd0 (playerPhysics game0)) = playerPhysics game0"
    by (simp add: spawnObstacles_def game0_def spawnRate_def)
  have h2: "hd (obstacles game0) \<in> set (obstacles (fst (spawnObstacles rnd0 (playerPhysics game0))))"
    by (simp add: sp) (simp add: game0_def)
  have y: "playerY (playerPhysics game0) = 360.5"
    by (simp add: playerPhysics_def Let_def game0_def gravity_def liftMultiplier_def CANVAS_HEIGHT_def)
  have h3: "collides (playerY (playerPhysics game0))
        ((hd (obstacles game0))\<lparr>obs_x := obs_x (hd (obstacles game0))
            - gameSpeed (fst (spawnObstacles rnd0 (playerPhysics game0)))\<rparr>)"
    by (simp add: sp y) (simp add: game0_def collides_def)
  have v: "highScore game0 = 5" "score game0 = 7" by (simp_all add: game0_def)
  show ?thesis
    using collision_ends_run [OF h1 h2 h3] h1 h2 h3 v by simp
qed

section \<open>Scrolling at a constant speed, in exact arithmetic\<close>







section \<open>Gates\<close>



section \<open>Starting a run\<close>

lemma idle_frame:
  assumes "gameState g = PLAYING" and "obstacles g = []"
    and "frameRef g mod spawnRate (difficulty g) \<noteq> 0"
  shows "gameState (fst (updateGame True rnd g)) = PLAYING"
    and "obstacles (fst (updateGame True rnd g)) = []"
    and "gameSpeed (fst (updateGame True rnd g)) = gameSpeed g"
    and "score (fst (updateGame True rnd g)) = score g"
proof -
  have sp: "fst (spawnObstacles rnd (playerPhysics g)) = playerPhysics g"
    using assms(3) by (simp add: spawnObstacles_def)
  show "gameState (fst (updateGame True rnd g)) = PLAYING"
    using assms(2) by (simp add: updateGame_playing(6) [OF assms(1)] sp updateObstacles_setGameState)
  show "obstacles (fst (updateGame True rnd g)) = []"
    using assms(2) by (simp add: updateGame_playing(3) [OF assms(1)] sp updateObstacles_obstacles)
  show "gameSpeed (fst (updateGame True rnd g)) = gameSpeed g"
    by (simp add: updateGame_playing(4) [OF assms(1)] sp)
  show "score (fst (updateGame True rnd g)) = score g"
    using assms(2) by (simp add: updateGame_playing(5) [OF assms(1)] sp updateObstacles_scoreCalls)
qed

lemma idle_run:
  assumes "gameState g = PLAYING" and "obstacles g = []"
    and "\<forall>j < length rnds. (frameRef g + j) mod spawnRate (difficulty g) \<noteq> 0"
  shows "gameState (runFrames rnds g) = PLAYING \<and> obstacles (runFrames rnds g) = []
       \<and> gameSpeed (runFrames rnds g) = gameSpeed g \<and> score (runFrames rnds g) = score g
       \<and> frameRef (runFrames rnds g) = frameRef g + length rnds
       \<and> difficulty (runFrames rnds g) = difficulty g"
  using assms
proof (induction rnds arbitrary: g)
  case Nil
  then show ?case by simp
next
  case (Cons rnd rnds)
  let ?g = "fst (updateGame True rnd g)"
  have now: "frameRef g mod spawnRate (difficulty g) \<noteq> 0"
    using Cons.prems(3) by force
  note f = idle_frame [OF Cons.prems(1,2) now, of rnd]
  have later: "\<forall>j < length rnds. (frameRef ?g + j) mod spawnRate (difficulty ?g) \<noteq> 0"
  proof (intro allI impI)
    fix j assume "j < length rnds"
    then have "Suc j < length (rnd # rnds)" by simp
    with Cons.prems(3) have "(frameRef g + Suc j) mod spawnRate (difficulty g) \<noteq> 0"
      by blast
    then show "(frameRef ?g + j) mod spawnRate (difficulty ?g) \<noteq> 0"
      by (simp add: updateGame_frame_counter updateGame_other)
  qed
  show ?case
    using Cons.IH [OF f(1) f(2) later] f
    by (simp add: updateGame_frame_counter updateGame_other)
qed

lemma first_multiple:
  assumes "k < p" and "(f + k) mod p = 0" and "j < k"
  shows "(f + j) mod p \<noteq> (0::nat)"
proof
  assume z: "(f + j) mod p = 0"
  have "f + k = (f + j) + (k - j)" using assms(3) by simp
  then have "(k - j) mod p = 0"
    using assms(2) z by (metis add_cancel_right_left mod_add_left_eq)
  moreover have "0 < k - j" "k - j < p" using assms(1,3) by simp_all
  ultimately show False by simp
qed

lemma spawn_frame_after_start:
  assumes "gameState g = PLAYING" and "obstacles g = []" and "score g = 0"
    and "frameRef g mod spawnRate (difficulty g) = 0" and "gameSpeed g \<le> 10"
  shows "gameSpeed (fst (updateGame True rnd g)) = gameSpeed g + speedIncrement (difficulty g)"
    and "obstacles (fst (updateGame True rnd g)) \<noteq> []"
proof -
  have inc: "speedIncrement (difficulty g) \<le> 1"
    by (cases "difficulty g") (simp_all add: speedIncrement_def)
  show "gameSpeed (fst (updateGame True rnd g)) = gameSpeed g + speedIncrement (difficulty g)"
    using assms(4) by (simp add: updateGame_playing(4) [OF assms(1)] spawnObstacles_def Let_def)
  show "obstacles (fst (updateGame True rnd g)) \<noteq> []"
    using assms(2,3,4,5) inc
    by (simp add: updateGame_playing(3) [OF assms(1)] spawnObstacles_def Let_def
        updateObstacles_obstacles pillarObstacle_def CANVAS_WIDTH_def)
qed

text \<open>
  C10. \<open>startGame\<close> changes the score, the avatar position and velocity, the
  obstacles, the sparkles and the scroll speed (and enters \<open>PLAYING\<close>); every other
  part of the state, the high score and the frame counter among them, is as before.
  Every frame that has a canvas increments the frame counter, whatever the game state.
  So when \<open>k\<close> below the spawn period is the offset at which the frame counter next
  reaches a multiple of the period, the first \<open>k\<close> frames of the run spawn nothing and
  leave the speed alone, and the next frame spawns; every \<open>k\<close> below the period is such
  an offset for some value of the frame counter.
\<close>

theorem startGame_frame_counter:
  "(fst (startGame g))\<lparr>score := score g, playerY := playerY g, playerVelocity := playerVelocity g,
       obstacles := obstacles g, sparklesRef := sparklesRef g, gameSpeed := gameSpeed g,
       gameState := gameState g\<rparr> = g
   \<and> highScore (fst (startGame g)) = highScore g
   \<and> frameRef (fst (startGame g)) = frameRef g
   \<and> frameRef (fst (updateGame True rnd g)) = Suc (frameRef g)
   \<and> (k < spawnRate (difficulty g) \<and> (frameRef g + k) mod spawnRate (difficulty g) = 0
        \<and> length rnds = k
      \<longrightarrow> (\<forall>j \<le> k. obstacles (runFrames (take j rnds) (fst (startGame g))) = []
                  \<and> gameSpeed (runFrames (take j rnds) (fst (startGame g)))
                      = gameSpeed (fst (startGame g)))
          \<and> gameSpeed (fst (updateGame True rnd (runFrames rnds (fst (startGame g)))))
              = gameSpeed (fst (startGame g)) + speedIncrement (difficulty g)
          \<and> obstacles (fst (updateGame True rnd (runFrames rnds (fst (startGame g))))) \<noteq> [])
   \<and> (k < spawnRate (difficulty g)
      \<longrightarrow> (frameRef (g\<lparr>frameRef := spawnRate (difficulty g) - k\<rparr>) + k)
            mod spawnRate (difficulty (g\<lparr>frameRef := spawnRate (difficulty g) - k\<rparr>)) = 0)"
proof -
  let ?s = "fst (startGame g)"
  let ?p = "spawnRate (difficulty g)"
  have s: "gameState ?s = PLAYING" "obstacles ?s = []" "score ?s = 0"
    "frameRef ?s = frameRef g" "difficulty ?s = difficulty g" "gameSpeed ?s \<le> 10"
    "highScore ?s = highScore g"
    by (simp_all add: startGame_def)
  have c1: "?s\<lparr>score := score g, playerY := playerY g, playerVelocity := playerVelocity g,
       obstacles := obstacles g, sparklesRef := sparklesRef g, gameSpeed := gameSpeed g,
       gameState := gameState g\<rparr> = g"
    by (simp add: startGame_def)
  have c4: "frameRef (fst (updateGame True rnd g)) = Suc (frameRef g)"
    by (rule updateGame_frame_counter)
  have c5: "(\<forall>j \<le> k. obstacles (runFrames (take j rnds) ?s) = []
                  \<and> gameSpeed (runFrames (take j rnds) ?s) = gameSpeed ?s)
          \<and> gameSpeed (fst (updateGame True rnd (runFrames rnds ?s)))
              = gameSpeed ?s + speedIncrement (difficulty g)
          \<and> obstacles (fst (updateGame True rnd (runFrames rnds ?s))) \<noteq> []"
    if k: "k < ?p" and m: "(frameRef g + k) mod ?p = 0" and l: "length rnds = k"
  proof -
    have quiet: "\<forall>i < length (take j rnds). (frameRef ?s + i) mod spawnRate (difficulty ?s) \<noteq> 0"
      if "j \<le> k" for j
    proof (intro allI impI)
      fix i assume "i < length (take j rnds)"
      then have "i < k" using that l by simp
      then show "(frameRef ?s + i) mod spawnRate (difficulty ?s) \<noteq> 0"
        using first_multiple [OF k m] by (simp add: s)
    qed
    have run: "gameState (runFrames (take j rnds) ?s) = PLAYING
         \<and> obstacles (runFrames (take j rnds) ?s) = []
         \<and> gameSpeed (runFrames (take j rnds) ?s) = gameSpeed ?s
         \<and> score (runFrames (take j rnds) ?s) = score ?s
         \<and> frameRef (runFrames (take j rnds) ?s) = frameRef ?s + length (take j rnds)
         \<and> difficulty (runFrames (take j rnds) ?s) = difficulty ?s" if "j \<le> k" for j
      by (rule idle_run [OF s(1) s(2) quiet [OF that]])
    have a: "\<forall>j \<le> k. obstacles (runFrames (take j rnds) ?s) = []
                  \<and> gameSpeed (runFrames (take j rnds) ?s) = gameSpeed ?s"
      using run by blast
    let ?e = "runFrames rnds ?s"
    have e: "gameState ?e = PLAYING" "obstacles ?e = []" "gameSpeed ?e = gameSpeed ?s"
      "score ?e = 0" "frameRef ?e = frameRef g + k" "difficulty ?e = difficulty g"
      using run [of k] l by (simp_all add: s)
    have e4: "frameRef ?e mod spawnRate (difficulty ?e) = 0" using m by (simp add: e)
    have e5: "gameSpeed ?e \<le> 10" using s(6) by (simp add: e)
    have b: "gameSpeed (fst (updateGame True rnd ?e)) = gameSpeed ?s + speedIncrement (difficulty g)"
      using spawn_frame_after_start(1) [OF e(1) e(2) e(4) e4 e5, of rnd] by (simp add: e)
    have c: "obstacles (fst (updateGame True rnd ?e)) \<noteq> []"
      by (rule spawn_frame_after_start(2) [OF e(1) e(2) e(4) e4 e5])
    from a b c show ?thesis by blast
  qed
  have c6: "(frameRef (g\<lparr>frameRef := ?p - k\<rparr>) + k)
            mod spawnRate (difficulty (g\<lparr>frameRef := ?p - k\<rparr>)) = 0" if "k < ?p"
    using that by simp
  have q5: "k < ?p \<and> (frameRef g + k) mod ?p = 0 \<and> length rnds = k
      \<longrightarrow> (\<forall>j \<le> k. obstacles (runFrames (take j rnds) ?s) = []
                  \<and> gameSpeed (runFrames (take j rnds) ?s) = gameSpeed ?s)
          \<and> gameSpeed (fst (updateGame True rnd (runFrames rnds ?s)))
              = gameSpeed ?s + speedIncrement (difficulty g)
          \<and> obstacles (fst (updateGame True rnd (runFrames rnds ?s))) \<noteq> []"
    using c5 by (intro impI) (elim conjE)
  have q6: "k < ?p \<longrightarrow> (frameRef (g\<lparr>frameRef := ?p - k\<rparr>) + k)
            mod spawnRate (difficulty (g\<lparr>frameRef := ?p - k\<rparr>)) = 0"
    using c6 by (rule impI)
  show ?thesis
    using c1 s(7) s(4) c4 q5 q6 by (intro conjI)
qed

theorem startGame_frame_counter_witness:
  "(2::nat) < spawnRate (difficulty gameOver0)
   \<and> (frameRef gameOver0 + 2) mod spawnRate (difficulty gameOver0) = 0
   \<and> highScore (fst (startGame gameOver0)) = 7
   \<and> frameRef (fst (startGame gameOver0)) = 98
   \<and> obstacles (runFrames [rnd0, rnd0] (fst (startGame gameOver0))) = []
   \<and> gameSpeed (runFrames [rnd0, rnd0] (fst (startGame gameOver0))) = 6
   \<and> gameSpeed (fst (updateGame True rnd0 (runFrames [rnd0, rnd0] (fst (startGame gameOver0)))))
       = 6 + 0.05
   \<and> obstacles (fst (updateGame True rnd0 (runFrames [rnd0, rnd0] (fst (startGame gameOver0))))) \<noteq> []"
proof -
  have a: "(2::nat) < spawnRate (difficulty gameOver0)"
    "(frameRef gameOver0 + 2) mod spawnRate (difficulty gameOver0) = 0"
    "length [rnd0, rnd0] = 2" "highScore gameOver0 = 7" "frameRef gameOver0 = 98"
    "difficulty gameOver0 = MEDIUM"
    by (simp_all add: gameOver0_def spawnRate_def)
  have s: "gameSpeed (fst (startGame gameOver0)) = 6"
    by (simp add: startGame_def a)
  have i: "speedIncrement MEDIUM = 0.05" by (simp add: speedIncrement_def)
  note t = startGame_frame_counter [of gameOver0 rnd0 2 "[rnd0, rnd0]"]
  have t1: "highScore (fst (startGame gameOver0)) = 7 \<and> frameRef (fst (startGame gameOver0)) = 98"
    using t a by simp
  have t2: "(\<forall>j \<le> 2. obstacles (runFrames (take j [rnd0, rnd0]) (fst (startGame gameOver0))) = []
                  \<and> gameSpeed (runFrames (take j [rnd0, rnd0]) (fst (startGame gameOver0)))
                      = gameSpeed (fst (startGame gameOver0)))
          \<and> gameSpeed (fst (updateGame True rnd0 (runFrames [rnd0, rnd0] (fst (startGame gameOver0)))))
              = gameSpeed (fst (startGame gameOver0)) + speedIncrement (difficulty gameOver0)
          \<and> obstacles (fst (updateGame True rnd0 (runFrames [rnd0, rnd0] (fst (startGame gameOver0))))) \<noteq> []"
    using t a(1,2,3) by blast
  then have t3: "obstacles (runFrames (take 2 [rnd0, rnd0]) (fst (startGame gameOver0))) = []
      \<and> gameSpeed (runFrames (take 2 [rnd0, rnd0]) (fst (startGame gameOver0)))
                      = gameSpeed (fst (startGame gameOver0))"
    by blast
  show ?thesis
    using a(1,2) t1 t2 t3 by (simp add: s i a(6))
qed

end
